theory Spec2Isabelle
  imports Main
begin

section \<open>The query-to-section resolution pipeline of app.py\<close>

text \<open>
  The theory embeds the four functions of \<^verbatim>\<open>app.py\<close> that decide which answer a query
  gets: \<^verbatim>\<open>preprocess_query\<close>, \<^verbatim>\<open>correct_spelling\<close>, \<^verbatim>\<open>match_with_synonyms\<close> and
  \<^verbatim>\<open>answer_question_nlp\<close>.

  A Python \<^verbatim>\<open>str\<close> is a sequence of Unicode code points, so a string is a list of
  natural numbers, one per code point; \<open>u\<close> turns an ASCII literal of the source into
  that form.
\<close>

subsection \<open>Strings\<close>

type_synonym pystr = "nat list"

definition u :: "string \<Rightarrow> pystr" where
  "u s = map of_char s"

text \<open>\<^verbatim>\<open>a.startswith(b)\<close> and the substring test \<^verbatim>\<open>term in text\<close>.\<close>

fun starts_with :: "pystr \<Rightarrow> pystr \<Rightarrow> bool" where
  "starts_with s [] = True"
| "starts_with [] (c # cs) = False"
| "starts_with (d # ds) (c # cs) = (d = c \<and> starts_with ds cs)"

fun str_in :: "pystr \<Rightarrow> pystr \<Rightarrow> bool" where
  "str_in t [] = (t = [])"
| "str_in t (c # cs) = (starts_with (c # cs) t \<or> str_in t cs)"

text \<open>\<^verbatim>\<open>sep.join(xs)\<close> on a list of strings.\<close>

fun str_join :: "pystr \<Rightarrow> pystr list \<Rightarrow> pystr" where
  "str_join sep [] = []"
| "str_join sep [x] = x"
| "str_join sep (x # y # ys) = x @ sep @ str_join sep (y # ys)"

text \<open>
  The code points on which \<^verbatim>\<open>str.split()\<close> without an argument splits (CPython's
  \<^verbatim>\<open>_PyUnicode_IsWhitespace\<close>).
\<close>

definition py_isspace :: "nat \<Rightarrow> bool" where
  "py_isspace c =
     ((9 \<le> c \<and> c \<le> 13) \<or> (28 \<le> c \<and> c \<le> 32) \<or> c = 133 \<or> c = 160 \<or> c = 5760
      \<or> (8192 \<le> c \<and> c \<le> 8202) \<or> c = 8232 \<or> c = 8233 \<or> c = 8239 \<or> c = 8287
      \<or> c = 12288)"

text \<open>
  \<^verbatim>\<open>s.split()\<close>: the maximal runs of non-whitespace code points, in order. \<open>cur\<close> is the
  run read so far.
\<close>

fun split_from :: "pystr \<Rightarrow> pystr \<Rightarrow> pystr list" where
  "split_from cur [] = (if cur = [] then [] else [cur])"
| "split_from cur (c # cs) =
     (if py_isspace c then (if cur = [] then split_from [] cs else cur # split_from [] cs)
      else split_from (cur @ [c]) cs)"

definition str_split :: "pystr \<Rightarrow> pystr list" where
  "str_split s = split_from [] s"

subsection \<open>Exceptions\<close>

text \<open>
  The source raises nothing itself. What can raise is a call into spaCy or pyspellchecker,
  \<^verbatim>\<open>" ".join\<close> on a list that holds \<^verbatim>\<open>None\<close> (a \<^verbatim>\<open>TypeError\<close>), and the comprehension
  over a synonyms entry: iterating over a value that is not iterable is a \<^verbatim>\<open>TypeError\<close>,
  and \<^verbatim>\<open>.lower()\<close> on an element that is not a string is an \<^verbatim>\<open>AttributeError\<close>. A
  computation that may raise returns \<open>Inl\<close> of the exception. \<open>try_except\<close> is
  \<^verbatim>\<open>try: ... except Exception as e: ...\<close>.
\<close>

datatype error = TypeError | AttributeError | LibraryError

definition try_except :: "error + 'a \<Rightarrow> (error \<Rightarrow> error + 'a) \<Rightarrow> error + 'a" where
  "try_except body handler = (case body of Inl e \<Rightarrow> handler e | Inr v \<Rightarrow> Inr v)"

subsection \<open>The globals of the module\<close>

text \<open>
  A spaCy token, with the attributes the source reads (\<^verbatim>\<open>lemma_\<close> as \<open>tok_lemma\<close>, \<^verbatim>\<open>is_stop\<close>,
  \<^verbatim>\<open>is_punct\<close>, \<^verbatim>\<open>is_space\<close>) and its text.
\<close>

record token =
  tok_text :: pystr
  tok_lemma :: pystr
  is_stop :: bool
  is_punct :: bool
  is_space :: bool

text \<open>
  A value that \<^verbatim>\<open>json.load\<close> returns: \<^verbatim>\<open>None\<close>, a bool, a number (its value is never
  read), a string, a list, or a dict given by its items in insertion order.
\<close>

datatype json =
  JNull
| JBool bool
| JNum
| JStr pystr
| JArr "json list"
| JObj "(pystr \<times> json) list"

text \<open>
  The module's globals and the library operations it calls are not in the source file and
  are parameters of the model:
  \<^item> \<open>nlp\<close> is the loaded spaCy pipeline; calling it may raise;
  \<^item> \<open>spell_unknown\<close> and \<open>spell_correction\<close> are \<^verbatim>\<open>spell.unknown\<close> and
    \<^verbatim>\<open>spell.correction\<close>; the latter returns \<^verbatim>\<open>None\<close> when it has no candidate;
  \<^item> \<open>sections\<close> and \<open>synonyms\<close> are dictionaries that are only looked up, \<open>qa_mapping\<close>
    and \<open>citizenship_mapping\<close> are dictionaries that are iterated, so they are lists of
    items in insertion order. \<open>sections\<close>, \<open>qa_mapping\<close> and \<open>citizenship_mapping\<close> have the
    types of the data model: section-key to answer text, key to placeholder, subtopic to
    section-key. The source iterates over the values of \<open>synonyms\<close> and calls
    \<^verbatim>\<open>.lower()\<close> on their elements, so these values are kept as the JSON values that the
    file holds;
  \<^item> \<open>str_lower\<close> and \<open>str_repr\<close> are \<^verbatim>\<open>str.lower\<close> and \<^verbatim>\<open>repr\<close> on strings, which
    depend on the Unicode character database.
\<close>

record env =
  nlp :: "pystr \<Rightarrow> error + token list"
  spell_unknown :: "pystr list \<Rightarrow> error + pystr set"
  spell_correction :: "pystr \<Rightarrow> error + pystr option"
  sections :: "pystr \<rightharpoonup> pystr"
  synonyms :: "pystr \<rightharpoonup> json"
  qa_mapping :: "(pystr \<times> pystr) list"
  citizenship_mapping :: "(pystr \<times> pystr) list"
  str_lower :: "pystr \<Rightarrow> pystr"
  str_repr :: "pystr \<Rightarrow> pystr"

subsection \<open>preprocess_query\<close>

definition keep_token :: "token \<Rightarrow> bool" where
  "keep_token t = (\<not> is_stop t \<and> \<not> is_punct t \<and> \<not> is_space t)"

definition preprocess_query :: "env \<Rightarrow> pystr \<Rightarrow> error + pystr" where
  "preprocess_query e query =
     try_except
       (case nlp e query of
          Inl x \<Rightarrow> Inl x
        | Inr doc \<Rightarrow>
            (let tokens = map (\<lambda>t. str_lower e (tok_lemma t)) (filter keep_token doc);
                 processed = str_join (u '' '') tokens
             in Inr processed))
       (\<lambda>x. Inr (str_lower e query))"

subsection \<open>correct_spelling\<close>

text \<open>
  The list comprehension \<^verbatim>\<open>[spell.correction(word) if word in misspelled else word ...]\<close>;
  an element is \<open>None\<close> where \<^verbatim>\<open>spell.correction\<close> returned \<^verbatim>\<open>None\<close>.
\<close>

fun corrected_list :: "env \<Rightarrow> pystr set \<Rightarrow> pystr list \<Rightarrow> error + pystr option list" where
  "corrected_list e misspelled [] = Inr []"
| "corrected_list e misspelled (word # rest) =
     (case (if word \<in> misspelled then spell_correction e word else Inr (Some word)) of
        Inl x \<Rightarrow> Inl x
      | Inr c \<Rightarrow>
          (case corrected_list e misspelled rest of
             Inl x \<Rightarrow> Inl x
           | Inr cs \<Rightarrow> Inr (c # cs)))"

text \<open>\<^verbatim>\<open>" ".join(corrected)\<close> raises \<^verbatim>\<open>TypeError\<close> when an element is \<^verbatim>\<open>None\<close>.\<close>

definition join_corrected :: "pystr option list \<Rightarrow> error + pystr" where
  "join_corrected corrected =
     (case those corrected of
        None \<Rightarrow> Inl TypeError
      | Some ws \<Rightarrow> Inr (str_join (u '' '') ws))"

definition correct_spelling :: "env \<Rightarrow> pystr \<Rightarrow> error + pystr" where
  "correct_spelling e processed_query =
     try_except
       (let words = str_split processed_query in
        case spell_unknown e words of
          Inl x \<Rightarrow> Inl x
        | Inr misspelled \<Rightarrow>
            (case corrected_list e misspelled words of
               Inl x \<Rightarrow> Inl x
             | Inr corrected \<Rightarrow> join_corrected corrected))
       (\<lambda>x. Inr processed_query)"

subsection \<open>match_with_synonyms\<close>

text \<open>The loop over \<^verbatim>\<open>citizenship_mapping.items()\<close>.\<close>

fun citizenship_loop :: "env \<Rightarrow> pystr \<Rightarrow> (pystr \<times> pystr) list \<Rightarrow> pystr option" where
  "citizenship_loop e corrected_query [] = None"
| "citizenship_loop e corrected_query ((subtopic, section_key) # rest) =
     (if str_in (str_lower e subtopic) corrected_query then Some section_key
      else citizenship_loop e corrected_query rest)"

text \<open>The inner loop over \<^verbatim>\<open>search_terms\<close>: does some term occur in the corrected query?\<close>

fun term_loop :: "pystr \<Rightarrow> pystr list \<Rightarrow> bool" where
  "term_loop corrected_query [] = False"
| "term_loop corrected_query (term # rest) =
     (if str_in term corrected_query then True else term_loop corrected_query rest)"

text \<open>
  \<^verbatim>\<open>for s in value\<close>: the elements of a list, the characters of a string, the keys of a
  dict; any other value is not iterable.
\<close>

fun py_iter :: "json \<Rightarrow> error + json list" where
  "py_iter (JArr xs) = Inr xs"
| "py_iter (JStr s) = Inr (map (\<lambda>c. JStr [c]) s)"
| "py_iter (JObj items) = Inr (map (\<lambda>item. JStr (fst item)) items)"
| "py_iter JNull = Inl TypeError"
| "py_iter (JBool b) = Inl TypeError"
| "py_iter JNum = Inl TypeError"

text \<open>\<^verbatim>\<open>[s.lower() for s in ...]\<close> on the elements: only a string has \<^verbatim>\<open>.lower()\<close>.\<close>

fun lower_each :: "env \<Rightarrow> json list \<Rightarrow> error + pystr list" where
  "lower_each e [] = Inr []"
| "lower_each e (JStr s # rest) =
     (case lower_each e rest of
        Inl x \<Rightarrow> Inl x
      | Inr ls \<Rightarrow> Inr (str_lower e s # ls))"
| "lower_each e (v # rest) = Inl AttributeError"

text \<open>\<^verbatim>\<open>[key.lower()] + [s.lower() for s in synonyms.get(key, [])]\<close>.\<close>

definition search_terms :: "env \<Rightarrow> (pystr \<rightharpoonup> json) \<Rightarrow> pystr \<Rightarrow> error + pystr list" where
  "search_terms e syns key =
     (case py_iter (case syns key of None \<Rightarrow> JArr [] | Some v \<Rightarrow> v) of
        Inl x \<Rightarrow> Inl x
      | Inr items \<Rightarrow>
          (case lower_each e items of
             Inl x \<Rightarrow> Inl x
           | Inr ls \<Rightarrow> Inr (str_lower e key # ls)))"

text \<open>The loop over the keys of \<^verbatim>\<open>qa_mapping\<close>.\<close>

fun qa_loop ::
  "env \<Rightarrow> (pystr \<rightharpoonup> json) \<Rightarrow> pystr \<Rightarrow> (pystr \<times> pystr) list \<Rightarrow> error + pystr option" where
  "qa_loop e syns corrected_query [] = Inr None"
| "qa_loop e syns corrected_query ((key, v) # rest) =
     (case search_terms e syns key of
        Inl x \<Rightarrow> Inl x
      | Inr terms \<Rightarrow>
          if term_loop corrected_query terms then Inr (Some key)
          else qa_loop e syns corrected_query rest)"

text \<open>The part of \<^verbatim>\<open>match_with_synonyms\<close> after the query is corrected.\<close>

definition match_corrected ::
  "env \<Rightarrow> pystr \<Rightarrow> (pystr \<times> pystr) list \<Rightarrow> (pystr \<rightharpoonup> json) \<Rightarrow> (pystr \<times> pystr) list
     \<Rightarrow> error + pystr option" where
  "match_corrected e corrected_query qa syns cit =
     (case citizenship_loop e corrected_query cit of
        Some section_key \<Rightarrow> Inr (Some section_key)
      | None \<Rightarrow>
          if str_in (u ''citizenship'') corrected_query then Inr (Some (u ''citizenship''))
          else qa_loop e syns corrected_query qa)"

definition match_with_synonyms ::
  "env \<Rightarrow> pystr \<Rightarrow> (pystr \<times> pystr) list \<Rightarrow> (pystr \<rightharpoonup> json) \<Rightarrow> (pystr \<times> pystr) list
     \<Rightarrow> error + pystr option" where
  "match_with_synonyms e query qa syns cit =
     (case preprocess_query e query of
        Inl x \<Rightarrow> Inl x
      | Inr processed_query \<Rightarrow>
          (case correct_spelling e processed_query of
             Inl x \<Rightarrow> Inl x
           | Inr corrected_query \<Rightarrow> match_corrected e corrected_query qa syns cit))"

subsection \<open>answer_question_nlp\<close>

definition prioritized_phrases :: "(pystr list \<times> pystr) list" where
  "prioritized_phrases =
     [([u ''language'', u ''culture''], u ''language culture''),
      ([u ''implementation'', u ''rights''], u ''implementation right''),
      ([u ''authority'', u ''court'', u ''bill'', u ''right''], u ''authority court bill right'')]"

text \<open>\<^verbatim>\<open>all(term in query_lower for term in terms)\<close>.\<close>

definition all_terms_in :: "pystr \<Rightarrow> pystr list \<Rightarrow> bool" where
  "all_terms_in query_lower terms = list_all (\<lambda>term. str_in term query_lower) terms"

text \<open>
  The loop over \<^verbatim>\<open>prioritized_phrases.items()\<close>: it returns from the function only when the
  terms all occur and the key is in \<^verbatim>\<open>sections\<close>; otherwise it goes on with the next item.
\<close>

fun phrase_loop :: "(pystr \<rightharpoonup> pystr) \<Rightarrow> pystr \<Rightarrow> (pystr list \<times> pystr) list \<Rightarrow> pystr option" where
  "phrase_loop sects query_lower [] = None"
| "phrase_loop sects query_lower ((terms, key) # rest) =
     (if all_terms_in query_lower terms then
        (case sects key of
           Some answer \<Rightarrow> Some answer
         | None \<Rightarrow> phrase_loop sects query_lower rest)
      else phrase_loop sects query_lower rest)"

text \<open>
  Two predicates on an item of \<^verbatim>\<open>prioritized_phrases\<close>, to state properties of the loop:
  the condition of its first \<^verbatim>\<open>if\<close>, and the conjunction of both conditions.
\<close>

definition rule_satisfied :: "pystr \<Rightarrow> pystr list \<times> pystr \<Rightarrow> bool" where
  "rule_satisfied query_lower rule = all_terms_in query_lower (fst rule)"

definition rule_answers :: "(pystr \<rightharpoonup> pystr) \<Rightarrow> pystr \<Rightarrow> pystr list \<times> pystr \<Rightarrow> bool" where
  "rule_answers sects query_lower rule =
     (rule_satisfied query_lower rule \<and> sects (snd rule) \<noteq> None)"

text \<open>\<^verbatim>\<open>str(list(citizenship_mapping.keys()))\<close>, as the f-string formats it.\<close>

definition list_str :: "env \<Rightarrow> pystr list \<Rightarrow> pystr" where
  "list_str e xs = u ''['' @ str_join (u '', '') (map (str_repr e) xs) @ u '']''"

definition citizenship_message :: "env \<Rightarrow> pystr" where
  "citizenship_message e =
     u ''It seems you're interested in citizenship. Available subtopics include: ''
       @ list_str e (map fst (citizenship_mapping e)) @ u ''.''"

definition no_answer_message :: pystr where
  "no_answer_message =
     u ''Sorry, I couldn't find an answer to your question. Try asking about specific topics like:\<newline>- Citizenship requirements\<newline>- Parliamentary authority\<newline>- Constitutional amendments''"

definition error_message :: pystr where
  "error_message = u ''Sorry, I encountered an error processing your question.''"

text \<open>
  What follows the call of \<^verbatim>\<open>match_with_synonyms\<close>. The key \<^verbatim>\<open>None\<close> is in no dictionary
  and is not \<^verbatim>\<open>"citizenship"\<close>.
\<close>

definition answer_for_key :: "env \<Rightarrow> pystr option \<Rightarrow> pystr" where
  "answer_for_key e section_key =
     (case section_key of
        None \<Rightarrow> no_answer_message
      | Some k \<Rightarrow>
          (case sections e k of
             Some answer \<Rightarrow> answer
           | None \<Rightarrow> if k = u ''citizenship'' then citizenship_message e else no_answer_message))"

text \<open>The body of the \<^verbatim>\<open>try\<close> block of \<^verbatim>\<open>answer_question_nlp\<close>.\<close>

definition answer_body :: "env \<Rightarrow> pystr \<Rightarrow> error + pystr" where
  "answer_body e query =
     (let query_lower = str_lower e query in
      case phrase_loop (sections e) query_lower prioritized_phrases of
        Some answer \<Rightarrow> Inr answer
      | None \<Rightarrow>
          (case match_with_synonyms e query (qa_mapping e) (synonyms e) (citizenship_mapping e) of
             Inl x \<Rightarrow> Inl x
           | Inr section_key \<Rightarrow> Inr (answer_for_key e section_key)))"

definition answer_question_nlp :: "env \<Rightarrow> pystr \<Rightarrow> error + pystr" where
  "answer_question_nlp e query = try_except (answer_body e query) (\<lambda>x. Inr error_message)"

subsection \<open>The Matcher as the specification describes it\<close>

text \<open>
  The specification describes the Matcher as one list of rules, tried in order, of which
  the first that fires gives the key: a rule for each citizenship subtopic (its only term
  is the lowercased subtopic, its key the mapped section-key), then the rule of the term
  \<^verbatim>\<open>citizenship\<close> with the key \<^verbatim>\<open>citizenship\<close>, then a rule for each question-key (its
  terms are the lowercased key and its lowercased synonyms, its key the question-key). A
  rule fires when one of its terms is a substring of the corrected text.
\<close>

definition spec_matcher_rules ::
  "env \<Rightarrow> (pystr \<times> pystr) list \<Rightarrow> (pystr \<rightharpoonup> pystr list) \<Rightarrow> (pystr \<times> pystr) list
     \<Rightarrow> (pystr list \<times> pystr) list" where
  "spec_matcher_rules e qa syns cit =
     map (\<lambda>(subtopic, key). ([str_lower e subtopic], key)) cit
     @ [([u ''citizenship''], u ''citizenship'')]
     @ map (\<lambda>(key, v).
              (str_lower e key # map (str_lower e) (case syns key of None \<Rightarrow> [] | Some l \<Rightarrow> l),
               key)) qa"

text \<open>A SynonymTable of the data model, as \<^verbatim>\<open>json.load\<close> gives it.\<close>

definition json_synonyms :: "(pystr \<rightharpoonup> pystr list) \<Rightarrow> (pystr \<rightharpoonup> json)" where
  "json_synonyms syns key = map_option (\<lambda>l. JArr (map JStr l)) (syns key)"

definition spec_rule_fires :: "pystr \<Rightarrow> pystr list \<times> pystr \<Rightarrow> bool" where
  "spec_rule_fires corrected_text rule = list_ex (\<lambda>term. str_in term corrected_text) (fst rule)"

definition spec_first_match :: "pystr \<Rightarrow> (pystr list \<times> pystr) list \<Rightarrow> pystr option" where
  "spec_first_match corrected_text rules =
     map_option snd (find (spec_rule_fires corrected_text) rules)"

subsection \<open>The correction of a word\<close>

text \<open>
  What the specification calls the best correction of a token: the word that
  \<^verbatim>\<open>spell.correction\<close> returns, and the token itself where it returns \<^verbatim>\<open>None\<close> or raises.
\<close>

definition best_correction :: "env \<Rightarrow> pystr \<Rightarrow> pystr" where
  "best_correction e word =
     (case spell_correction e word of
        Inr (Some c) \<Rightarrow> c
      | Inr None \<Rightarrow> word
      | Inl x \<Rightarrow> word)"

subsection \<open>A concrete instance\<close>

text \<open>
  A small instance of the parameters, on which the functions can be run: \<^verbatim>\<open>str.lower\<close> and
  \<^verbatim>\<open>repr\<close> as they are on plain ASCII words, a tokenizer that splits at whitespace and
  lemmatizes nothing, and a spell checker given by a word list and a table of corrections.
\<close>

definition ascii_lower :: "pystr \<Rightarrow> pystr" where
  "ascii_lower s = map (\<lambda>c. if 65 \<le> c \<and> c \<le> 90 then c + 32 else c) s"

definition quote_repr :: "pystr \<Rightarrow> pystr" where
  "quote_repr s = 39 # s @ [39]"

definition word_token :: "pystr list \<Rightarrow> pystr \<Rightarrow> token" where
  "word_token stops w =
     \<lparr>tok_text = w, tok_lemma = w, is_stop = (w \<in> set stops), is_punct = False, is_space = False\<rparr>"

definition word_nlp :: "pystr list \<Rightarrow> pystr \<Rightarrow> error + token list" where
  "word_nlp stops s = Inr (map (word_token stops) (str_split s))"

text \<open>A tokenizer that also lemmatizes, by a table of lemmas.\<close>

definition lemma_token :: "pystr list \<Rightarrow> (pystr \<times> pystr) list \<Rightarrow> pystr \<Rightarrow> token" where
  "lemma_token stops lemmas w =
     \<lparr>tok_text = w, tok_lemma = (case map_of lemmas w of None \<Rightarrow> w | Some l \<Rightarrow> l),
      is_stop = (w \<in> set stops), is_punct = False, is_space = False\<rparr>"

definition lemma_nlp :: "pystr list \<Rightarrow> (pystr \<times> pystr) list \<Rightarrow> pystr \<Rightarrow> error + token list" where
  "lemma_nlp stops lemmas s = Inr (map (lemma_token stops lemmas) (str_split s))"

definition failing_nlp :: "pystr \<Rightarrow> error + token list" where
  "failing_nlp s = Inl LibraryError"

definition dict_unknown :: "pystr list \<Rightarrow> pystr list \<Rightarrow> error + pystr set" where
  "dict_unknown known words = Inr (set (filter (\<lambda>w. w \<notin> set known) words))"

definition table_correction :: "(pystr \<times> pystr) list \<Rightarrow> pystr \<Rightarrow> error + pystr option" where
  "table_correction corrections w = Inr (map_of corrections w)"

definition demo_env :: env where
  "demo_env =
     \<lparr>nlp = word_nlp [u ''the'', u ''is'', u ''what'', u ''about''],
      spell_unknown =
        dict_unknown [u ''citizenship'', u ''birth'', u ''by'', u ''parliament'', u ''hello'',
                      u ''language'', u ''culture''],
      spell_correction = table_correction [(u ''helo'', u ''hello'')],
      sections =
        map_of [(u ''language culture'', u ''Languages.''),
                (u ''birth section'', u ''Citizens by birth.''),
                (u ''parliament'', u ''Parliament.'')],
      synonyms = json_synonyms (map_of [(u ''parliament'', [u ''Senate''])]),
      qa_mapping = [(u ''parliament'', u ''x''), (u ''land'', u ''x'')],
      citizenship_mapping = [(u ''By Birth'', u ''birth section''), (u ''dual'', u ''dual section'')],
      str_lower = ascii_lower,
      str_repr = quote_repr\<rparr>"

section \<open>Properties\<close>

subsection \<open>The handlers of the stages catch everything\<close>

lemma preprocess_query_returns: "\<exists>r. preprocess_query e query = Inr r"
  by (cases "nlp e query") (simp_all add: preprocess_query_def try_except_def)

lemma correct_spelling_returns: "\<exists>r. correct_spelling e p = Inr r"
  unfolding correct_spelling_def try_except_def
  by (simp split: sum.split)

lemma match_with_synonyms_returns:
  "\<exists>p c. preprocess_query e query = Inr p \<and> correct_spelling e p = Inr c
     \<and> match_with_synonyms e query qa syns cit = match_corrected e c qa syns cit"
proof -
  obtain p where p: "preprocess_query e query = Inr p"
    using preprocess_query_returns by blast
  obtain c where c: "correct_spelling e p = Inr c"
    using correct_spelling_returns by blast
  show ?thesis
    using p c by (simp add: match_with_synonyms_def)
qed

text \<open>
  Claim C6. Whenever the spaCy pipeline raises on the query, \<open>preprocess_query\<close> returns the
  lowercased raw query, in one piece; and whatever the pipeline does, \<open>preprocess_query\<close>
  returns a string and raises nothing to its caller.
\<close>

theorem preprocess_query_never_raises:
  "(nlp e query = Inl x \<longrightarrow> preprocess_query e query = Inr (str_lower e query))
   \<and> (\<exists>r. preprocess_query e query = Inr r)"
  using preprocess_query_returns [of e query]
  by (simp add: preprocess_query_def try_except_def)

lemma ascii_lower_Hello: "ascii_lower (u ''Hello'') = u ''hello''"
  by (simp add: ascii_lower_def u_def)

theorem preprocess_query_never_raises_witness:
  "nlp (demo_env\<lparr>nlp := failing_nlp\<rparr>) (u ''Hello'') = Inl LibraryError
   \<and> preprocess_query (demo_env\<lparr>nlp := failing_nlp\<rparr>) (u ''Hello'') = Inr (u ''hello'')"
  using preprocess_query_never_raises [of "demo_env\<lparr>nlp := failing_nlp\<rparr>" "u ''Hello''" LibraryError]
  by (simp add: failing_nlp_def demo_env_def ascii_lower_Hello)

subsection \<open>Substrings\<close>

lemma starts_with_iff: "starts_with s t \<longleftrightarrow> (\<exists>ss. s = t @ ss)"
  by (induction s t rule: starts_with.induct) auto

lemma str_in_iff: "str_in t s \<longleftrightarrow> (\<exists>ps ss. s = ps @ t @ ss)"
proof (induction s)
  case Nil
  then show ?case by auto
next
  case (Cons c cs)
  have "(\<exists>ps ss. c # cs = ps @ t @ ss) \<longleftrightarrow>
        (\<exists>ss. c # cs = t @ ss) \<or> (\<exists>ps ss. cs = ps @ t @ ss)"
  proof
    assume "\<exists>ps ss. c # cs = ps @ t @ ss"
    then obtain ps ss where eq: "c # cs = ps @ t @ ss" by blast
    show "(\<exists>ss. c # cs = t @ ss) \<or> (\<exists>ps ss. cs = ps @ t @ ss)"
    proof (cases ps)
      case Nil
      with eq show ?thesis by auto
    next
      case (Cons p ps')
      with eq have "cs = ps' @ t @ ss" by simp
      then show ?thesis by blast
    qed
  next
    assume "(\<exists>ss. c # cs = t @ ss) \<or> (\<exists>ps ss. cs = ps @ t @ ss)"
    then show "\<exists>ps ss. c # cs = ps @ t @ ss"
    proof
      assume "\<exists>ss. c # cs = t @ ss"
      then obtain ss where "c # cs = [] @ t @ ss" by auto
      then show ?thesis by blast
    next
      assume "\<exists>ps ss. cs = ps @ t @ ss"
      then obtain ps ss where "c # cs = (c # ps) @ t @ ss" by auto
      then show ?thesis by blast
    qed
  qed
  with Cons show ?case by (simp add: starts_with_iff)
qed

subsection \<open>Evaluating the concrete instance\<close>

lemmas string_defs = u_def ascii_lower_def py_isspace_def str_split_def quote_repr_def
lemmas phrase_defs = prioritized_phrases_def rule_answers_def rule_satisfied_def all_terms_in_def
lemmas demo_defs = demo_env_def word_nlp_def word_token_def lemma_nlp_def lemma_token_def
  failing_nlp_def dict_unknown_def table_correction_def keep_token_def json_synonyms_def
lemmas stage_defs = preprocess_query_def correct_spelling_def join_corrected_def
  match_with_synonyms_def match_corrected_def search_terms_def try_except_def

subsection \<open>The prioritized phrase check\<close>

lemma phrase_loop_find:
  "phrase_loop sects ql rules =
     (case find (rule_answers sects ql) rules of None \<Rightarrow> None | Some rule \<Rightarrow> sects (snd rule))"
  by (induction rules) (auto simp: rule_answers_def rule_satisfied_def split: option.splits)

lemma phrase_loop_None_iff:
  "phrase_loop sects ql rules = None \<longleftrightarrow>
     (\<forall>rule\<in>set rules. rule_satisfied ql rule \<longrightarrow> sects (snd rule) = None)"
  by (induction rules) (auto simp: rule_satisfied_def split: option.splits if_splits)

lemma phrase_loop_ran: "phrase_loop sects ql rules = Some a \<Longrightarrow> \<exists>k. sects k = Some a"
  by (induction rules) (auto split: option.splits if_splits)

lemma phrase_loop_skip:
  assumes "\<forall>rule\<in>set before. \<not> rule_answers sects ql rule"
    and "sects key = None"
  shows "phrase_loop sects ql (before @ (terms, key) # after) = phrase_loop sects ql after"
  using assms
  by (induction before) (auto simp: rule_answers_def rule_satisfied_def split: option.splits)

lemma answer_body_hit:
  "phrase_loop (sections e) (str_lower e query) prioritized_phrases = Some a \<Longrightarrow>
     answer_question_nlp e query = Inr a"
  by (simp add: answer_question_nlp_def answer_body_def try_except_def)

lemma answer_body_miss:
  assumes "phrase_loop (sections e) (str_lower e query) prioritized_phrases = None"
  shows "answer_body e query =
           (case match_with_synonyms e query (qa_mapping e) (synonyms e) (citizenship_mapping e) of
              Inl x \<Rightarrow> Inl x
            | Inr section_key \<Rightarrow> Inr (answer_for_key e section_key))"
    and "answer_question_nlp e query =
           Inr (case match_with_synonyms e query (qa_mapping e) (synonyms e)
                       (citizenship_mapping e) of
                  Inl x \<Rightarrow> error_message
                | Inr section_key \<Rightarrow> answer_for_key e section_key)"
  using assms
  by (simp_all add: answer_question_nlp_def answer_body_def try_except_def split: sum.split)

text \<open>
  Claim C1, amended. Take the first item of \<^verbatim>\<open>prioritized_phrases\<close>, in declared order,
  whose terms all occur in the lowercased raw query and whose key is in \<^verbatim>\<open>sections\<close>. Then
  \<open>answer_question_nlp\<close> returns \<^verbatim>\<open>sections[key]\<close> for that item, and it returns the same
  whatever the spaCy pipeline, the spell checker, the synonyms, the question keys and the
  citizenship subtopics are: normalization, correction and matching have no effect.
\<close>

theorem phrase_hit_short_circuits:
  assumes "find (rule_answers (sections e) (str_lower e query)) prioritized_phrases
             = Some (terms, key)"
  shows "\<exists>a. sections e key = Some a \<and> answer_question_nlp e query = Inr a \<and>
           answer_question_nlp
             (e\<lparr>nlp := n, spell_unknown := su, spell_correction := sc, synonyms := sy,
                qa_mapping := qa, citizenship_mapping := cm\<rparr>) query = Inr a"
proof -
  let ?e' = "e\<lparr>nlp := n, spell_unknown := su, spell_correction := sc, synonyms := sy,
                qa_mapping := qa, citizenship_mapping := cm\<rparr>"
  from assms have "rule_answers (sections e) (str_lower e query) (terms, key)"
    by (auto simp: find_Some_iff)
  then obtain a where a: "sections e key = Some a"
    by (auto simp: rule_answers_def)
  have loop: "phrase_loop (sections e) (str_lower e query) prioritized_phrases = Some a"
    using assms a by (simp add: phrase_loop_find)
  then have "phrase_loop (sections ?e') (str_lower ?e' query) prioritized_phrases = Some a"
    by simp
  then have "answer_question_nlp ?e' query = Inr a"
    by (rule answer_body_hit)
  with a loop show ?thesis
    by (auto dest: answer_body_hit)
qed

theorem phrase_hit_short_circuits_witness:
  "sections demo_env (u ''language culture'') = Some (u ''Languages.'')
   \<and> answer_question_nlp demo_env (u ''Language and Culture'') = Inr (u ''Languages.'')
   \<and> answer_question_nlp
        (demo_env\<lparr>nlp := failing_nlp, spell_unknown := (\<lambda>ws. Inl LibraryError),
           spell_correction := (\<lambda>w. Inl LibraryError), synonyms := Map.empty,
           qa_mapping := [], citizenship_mapping := []\<rparr>) (u ''Language and Culture'')
      = Inr (u ''Languages.'')"
proof -
  have h: "find (rule_answers (sections demo_env) (str_lower demo_env (u ''Language and Culture'')))
             prioritized_phrases = Some ([u ''language'', u ''culture''], u ''language culture'')"
    by (simp add: phrase_defs demo_env_def string_defs)
  have s: "sections demo_env (u ''language culture'') = Some (u ''Languages.'')"
    by (simp add: demo_env_def string_defs)
  show ?thesis
    using phrase_hit_short_circuits [where n = failing_nlp and su = "\<lambda>ws. Inl LibraryError"
        and sc = "\<lambda>w. Inl LibraryError" and sy = Map.empty and qa = "[]" and cm = "[]", OF h] s
    by simp
qed

text \<open>
  Claim C1 as stated fails: the first item whose terms all occur in the query below is
  \<^verbatim>\<open>('language', 'culture')\<close>, its key is not in \<^verbatim>\<open>sections\<close>, and the answer is the section
  of the third item.
\<close>

theorem first_satisfied_rule_counterexample:
  "find (rule_satisfied
           (str_lower (demo_env\<lparr>sections := map_of [(u ''authority court bill right'', u ''Courts.'')]\<rparr>)
              (u ''language culture court authority bill right'')))
      prioritized_phrases = Some ([u ''language'', u ''culture''], u ''language culture'')
   \<and> sections (demo_env\<lparr>sections := map_of [(u ''authority court bill right'', u ''Courts.'')]\<rparr>)
        (u ''language culture'') = None
   \<and> answer_question_nlp
        (demo_env\<lparr>sections := map_of [(u ''authority court bill right'', u ''Courts.'')]\<rparr>)
        (u ''language culture court authority bill right'') = Inr (u ''Courts.'')"
  by (simp add: answer_question_nlp_def answer_body_def try_except_def phrase_defs demo_env_def
      string_defs)

lemma demo_match_parliament:
  "match_with_synonyms (demo_env\<lparr>sections := map_of [(u ''parliament'', u ''Parliament.'')]\<rparr>)
     (u ''language culture parliament'') (qa_mapping demo_env) (synonyms demo_env)
     (citizenship_mapping demo_env)
   = Inr (Some (u ''parliament''))"
  by (simp add: stage_defs demo_defs string_defs)

text \<open>
  Claim C10. Let all terms of an item of \<^verbatim>\<open>prioritized_phrases\<close> occur in the lowercased
  query, let its key be missing from \<^verbatim>\<open>sections\<close>, and let no item before it have returned.
  Then the loop goes on with the items after it, in declared order: when the first of them
  whose terms all occur and whose key is in \<^verbatim>\<open>sections\<close> is the item of \<open>key'\<close>, the answer
  is \<^verbatim>\<open>sections[key']\<close>; when there is none, \<open>match_with_synonyms\<close> is run on the query and
  the answer is the one for the key it returns (and the apology when it raises).
\<close>

theorem missing_key_does_not_stop:
  assumes "prioritized_phrases = before @ (terms, key) # after"
    and "rule_satisfied (str_lower e query) (terms, key)"
    and "sections e key = None"
    and "\<forall>rule\<in>set before. \<not> rule_answers (sections e) (str_lower e query) rule"
  shows "(find (rule_answers (sections e) (str_lower e query)) after = Some (terms', key') \<longrightarrow>
            (\<exists>a. sections e key' = Some a \<and> answer_question_nlp e query = Inr a))
         \<and> (find (rule_answers (sections e) (str_lower e query)) after = None \<longrightarrow>
              answer_question_nlp e query =
                Inr (case match_with_synonyms e query (qa_mapping e) (synonyms e)
                            (citizenship_mapping e) of
                       Inl x \<Rightarrow> error_message
                     | Inr section_key \<Rightarrow> answer_for_key e section_key))"
proof (intro conjI impI)
  have skip: "phrase_loop (sections e) (str_lower e query) prioritized_phrases
                = phrase_loop (sections e) (str_lower e query) after"
    unfolding assms(1) using assms(4,3) by (rule phrase_loop_skip)
  {
    assume hit: "find (rule_answers (sections e) (str_lower e query)) after = Some (terms', key')"
    then have "rule_answers (sections e) (str_lower e query) (terms', key')"
      by (auto simp: find_Some_iff)
    then obtain a where a: "sections e key' = Some a"
      by (auto simp: rule_answers_def)
    have "phrase_loop (sections e) (str_lower e query) prioritized_phrases = Some a"
      using skip hit a by (simp add: phrase_loop_find)
    then have "answer_question_nlp e query = Inr a"
      by (rule answer_body_hit)
    with a show "\<exists>a. sections e key' = Some a \<and> answer_question_nlp e query = Inr a"
      by blast
  }
  {
    assume "find (rule_answers (sections e) (str_lower e query)) after = None"
    then have "phrase_loop (sections e) (str_lower e query) prioritized_phrases = None"
      using skip by (simp add: phrase_loop_find)
    then show "answer_question_nlp e query =
                Inr (case match_with_synonyms e query (qa_mapping e) (synonyms e)
                            (citizenship_mapping e) of
                       Inl x \<Rightarrow> error_message
                     | Inr section_key \<Rightarrow> answer_for_key e section_key)"
      by (rule answer_body_miss(2))
  }
qed

text \<open>
  In the first query the item \<^verbatim>\<open>('implementation', 'rights')\<close> has all its terms in the
  query and no section, and the item after it answers. In the second the item
  \<^verbatim>\<open>('language', 'culture')\<close> has no section, no later item has its terms in the query, and
  the answer comes from the question-key \<^verbatim>\<open>parliament\<close>.
\<close>

theorem missing_key_does_not_stop_witness:
  "rule_satisfied
     (str_lower (demo_env\<lparr>sections := map_of [(u ''authority court bill right'', u ''Courts.'')]\<rparr>)
        (u ''implementation rights court authority bill''))
     ([u ''implementation'', u ''rights''], u ''implementation right'')
   \<and> sections (demo_env\<lparr>sections := map_of [(u ''authority court bill right'', u ''Courts.'')]\<rparr>)
        (u ''implementation right'') = None
   \<and> answer_question_nlp
        (demo_env\<lparr>sections := map_of [(u ''authority court bill right'', u ''Courts.'')]\<rparr>)
        (u ''implementation rights court authority bill'') = Inr (u ''Courts.'')
   \<and> rule_satisfied
        (str_lower (demo_env\<lparr>sections := map_of [(u ''parliament'', u ''Parliament.'')]\<rparr>)
           (u ''language culture parliament''))
        ([u ''language'', u ''culture''], u ''language culture'')
   \<and> sections (demo_env\<lparr>sections := map_of [(u ''parliament'', u ''Parliament.'')]\<rparr>)
        (u ''language culture'') = None
   \<and> answer_question_nlp (demo_env\<lparr>sections := map_of [(u ''parliament'', u ''Parliament.'')]\<rparr>)
        (u ''language culture parliament'') = Inr (u ''Parliament.'')"
proof -
  let ?e1 = "demo_env\<lparr>sections := map_of [(u ''authority court bill right'', u ''Courts.'')]\<rparr>"
  let ?q1 = "u ''implementation rights court authority bill''"
  let ?r0 = "([u ''language'', u ''culture''], u ''language culture'')"
  let ?r1 = "([u ''implementation'', u ''rights''], u ''implementation right'')"
  let ?r2 = "([u ''authority'', u ''court'', u ''bill'', u ''right''], u ''authority court bill right'')"
  have a1: "prioritized_phrases = [?r0] @ ?r1 # [?r2]"
    by (simp add: prioritized_phrases_def)
  have a2: "rule_satisfied (str_lower ?e1 ?q1) ?r1"
    by (simp add: phrase_defs demo_env_def string_defs)
  have a3: "sections ?e1 (u ''implementation right'') = None"
    by (simp add: demo_env_def string_defs)
  have a4: "\<forall>rule\<in>set [?r0]. \<not> rule_answers (sections ?e1) (str_lower ?e1 ?q1) rule"
    by (simp add: phrase_defs demo_env_def string_defs)
  have a5: "find (rule_answers (sections ?e1) (str_lower ?e1 ?q1)) [?r2] = Some ?r2"
    by (simp add: phrase_defs demo_env_def string_defs)
  have a6: "sections ?e1 (u ''authority court bill right'') = Some (u ''Courts.'')"
    by (simp add: demo_env_def string_defs)
  have first: "answer_question_nlp ?e1 ?q1 = Inr (u ''Courts.'')"
    using missing_key_does_not_stop [OF a1 a2 a3 a4] a5 a6 by auto
  let ?e2 = "demo_env\<lparr>sections := map_of [(u ''parliament'', u ''Parliament.'')]\<rparr>"
  let ?q2 = "u ''language culture parliament''"
  have b1: "prioritized_phrases = [] @ ?r0 # [?r1, ?r2]"
    by (simp add: prioritized_phrases_def)
  have b2: "rule_satisfied (str_lower ?e2 ?q2) ?r0"
    by (simp add: phrase_defs demo_env_def string_defs)
  have b3: "sections ?e2 (u ''language culture'') = None"
    by (simp add: demo_env_def string_defs)
  have b4: "\<forall>rule\<in>set []. \<not> rule_answers (sections ?e2) (str_lower ?e2 ?q2) rule"
    by simp
  have b5: "find (rule_answers (sections ?e2) (str_lower ?e2 ?q2)) [?r1, ?r2] = None"
    by (simp add: phrase_defs demo_env_def string_defs)
  have m: "match_with_synonyms ?e2 ?q2 (qa_mapping ?e2) (synonyms ?e2) (citizenship_mapping ?e2)
             = Inr (Some (u ''parliament''))"
    using demo_match_parliament by (simp add: demo_env_def)
  have k: "answer_for_key ?e2 (Some (u ''parliament'')) = u ''Parliament.''"
    by (simp add: answer_for_key_def)
  have second: "answer_question_nlp ?e2 ?q2 = Inr (u ''Parliament.'')"
    using missing_key_does_not_stop [OF b1 b2 b3 b4] b5 m k by simp
  show ?thesis
    using a2 a3 first b2 b3 second by simp
qed

lemma demo_match_nothing:
  "match_with_synonyms demo_env (u ''asdkjasd'') (qa_mapping demo_env) (synonyms demo_env)
     (citizenship_mapping demo_env) = Inr None"
  by (simp add: stage_defs demo_defs string_defs)

text \<open>
  Claim C8. When the terms of no item of \<^verbatim>\<open>prioritized_phrases\<close> all occur in the lowercased
  query and \<open>match_with_synonyms\<close> returns \<^verbatim>\<open>None\<close>, the answer is exactly the fixed text
  that starts "Sorry, I couldn't find an answer to your question." and suggests three
  topics.
\<close>

theorem no_match_gives_guidance:
  assumes "\<forall>rule\<in>set prioritized_phrases. \<not> rule_satisfied (str_lower e query) rule"
    and "match_with_synonyms e query (qa_mapping e) (synonyms e) (citizenship_mapping e)
           = Inr None"
  shows "answer_question_nlp e query = Inr no_answer_message"
proof -
  from assms(1) have "phrase_loop (sections e) (str_lower e query) prioritized_phrases = None"
    by (simp add: phrase_loop_None_iff)
  from answer_body_miss(2) [OF this] assms(2) show ?thesis
    by (simp add: answer_for_key_def)
qed

theorem no_match_gives_guidance_witness:
  "\<not> list_ex (rule_satisfied (str_lower demo_env (u ''asdkjasd''))) prioritized_phrases
   \<and> match_with_synonyms demo_env (u ''asdkjasd'') (qa_mapping demo_env) (synonyms demo_env)
        (citizenship_mapping demo_env) = Inr None
   \<and> answer_question_nlp demo_env (u ''asdkjasd'') = Inr no_answer_message"
proof -
  have h1: "\<forall>rule\<in>set prioritized_phrases. \<not> rule_satisfied (str_lower demo_env (u ''asdkjasd'')) rule"
    by (simp add: phrase_defs demo_env_def string_defs)
  have h2: "match_with_synonyms demo_env (u ''asdkjasd'') (qa_mapping demo_env) (synonyms demo_env)
        (citizenship_mapping demo_env) = Inr None"
    by (rule demo_match_nothing)
  show ?thesis
    using no_match_gives_guidance [OF h1 h2] h1 h2 by (simp add: list_ex_iff)
qed

subsection \<open>answer_question_nlp returns a string\<close>

lemma error_message_text:
  "error_message = u ''Sorry, I encountered an error processing your question.''"
  by (simp add: error_message_def)

text \<open>
  Claim C4. For every query (a list of arbitrary code points, the empty one included),
  whatever spaCy and the spell checker do and whatever the synonyms file holds,
  \<open>answer_question_nlp\<close> returns a string and raises nothing; and when the body of its
  \<^verbatim>\<open>try\<close> block raises, what it returns is the fixed apology.
\<close>

theorem answer_question_nlp_never_raises:
  "(\<exists>s. answer_question_nlp e query = Inr s)
   \<and> (answer_body e query = Inl x \<longrightarrow>
        answer_question_nlp e query
          = Inr (u ''Sorry, I encountered an error processing your question.''))"
proof (cases "answer_body e query")
  case (Inl y)
  then show ?thesis
    by (simp add: answer_question_nlp_def try_except_def error_message_text)
next
  case (Inr s)
  then show ?thesis
    by (simp add: answer_question_nlp_def try_except_def)
qed

text \<open>
  With \<^verbatim>\<open>{"parliament": 5}\<close> as the synonyms file, the comprehension over the synonyms of
  \<^verbatim>\<open>parliament\<close> raises a \<^verbatim>\<open>TypeError\<close>, nothing in \<open>match_with_synonyms\<close> catches it, and
  the answer is the apology. With a spaCy pipeline and a spell checker that raise on every
  call, the empty string, pure punctuation and Cyrillic text get the guidance text.
\<close>

theorem answer_question_nlp_never_raises_witness:
  "answer_body (demo_env\<lparr>synonyms := map_of [(u ''parliament'', JNum)]\<rparr>) (u ''asdkjasd'')
     = Inl TypeError
   \<and> answer_question_nlp (demo_env\<lparr>synonyms := map_of [(u ''parliament'', JNum)]\<rparr>)
       (u ''asdkjasd'') = Inr (u ''Sorry, I encountered an error processing your question.'')
   \<and> answer_question_nlp
       (demo_env\<lparr>nlp := failing_nlp, spell_unknown := (\<lambda>ws. Inl LibraryError),
          spell_correction := (\<lambda>w. Inl LibraryError)\<rparr>) [] = Inr no_answer_message
   \<and> answer_question_nlp
       (demo_env\<lparr>nlp := failing_nlp, spell_unknown := (\<lambda>ws. Inl LibraryError),
          spell_correction := (\<lambda>w. Inl LibraryError)\<rparr>) (u ''?!'') = Inr no_answer_message
   \<and> answer_question_nlp
       (demo_env\<lparr>nlp := failing_nlp, spell_unknown := (\<lambda>ws. Inl LibraryError),
          spell_correction := (\<lambda>w. Inl LibraryError)\<rparr>) [1084, 1080, 1088]
       = Inr no_answer_message"
proof -
  let ?b = "demo_env\<lparr>synonyms := map_of [(u ''parliament'', JNum)]\<rparr>"
  have r: "answer_body ?b (u ''asdkjasd'') = Inl TypeError"
    by (simp add: answer_body_def stage_defs phrase_defs demo_defs string_defs)
  have apology: "answer_question_nlp ?b (u ''asdkjasd'')
                   = Inr (u ''Sorry, I encountered an error processing your question.'')"
    using answer_question_nlp_never_raises [of ?b "u ''asdkjasd''" TypeError] r by simp
  let ?e = "demo_env\<lparr>nlp := failing_nlp, spell_unknown := (\<lambda>ws. Inl LibraryError),
              spell_correction := (\<lambda>w. Inl LibraryError)\<rparr>"
  have b1: "answer_question_nlp ?e [] = Inr no_answer_message"
    by (simp add: answer_question_nlp_def answer_body_def answer_for_key_def stage_defs
        phrase_defs demo_defs string_defs)
  have b2: "answer_question_nlp ?e (u ''?!'') = Inr no_answer_message"
    by (simp add: answer_question_nlp_def answer_body_def answer_for_key_def stage_defs
        phrase_defs demo_defs string_defs)
  have b3: "answer_question_nlp ?e [1084, 1080, 1088] = Inr no_answer_message"
    by (simp add: answer_question_nlp_def answer_body_def answer_for_key_def stage_defs
        phrase_defs demo_defs string_defs)
  show ?thesis
    using r apology b1 b2 b3 by simp
qed

subsection \<open>The answer is not empty\<close>

lemma u_Cons_nonempty: "u (c # s) \<noteq> []"
  by (simp add: u_def)

lemma no_answer_message_nonempty: "no_answer_message \<noteq> []"
  unfolding no_answer_message_def by (rule u_Cons_nonempty)

lemma error_message_nonempty: "error_message \<noteq> []"
  unfolding error_message_def by (rule u_Cons_nonempty)

lemma citizenship_message_nonempty: "citizenship_message e \<noteq> []"
  by (simp add: citizenship_message_def u_def)

lemma answer_for_key_nonempty:
  assumes "\<forall>k a. sections e k = Some a \<longrightarrow> a \<noteq> []"
  shows "answer_for_key e section_key \<noteq> []"
  using assms no_answer_message_nonempty citizenship_message_nonempty [of e]
  by (auto simp: answer_for_key_def split: option.splits)

text \<open>
  Claim C9, amended. When no answer text of \<^verbatim>\<open>sections\<close> is the empty string, the string that
  \<open>answer_question_nlp\<close> returns is not empty, for every query.
\<close>

theorem answer_nonempty_for_nonempty_sections:
  assumes "\<forall>k a. sections e k = Some a \<longrightarrow> a \<noteq> []"
  shows "\<exists>s. answer_question_nlp e query = Inr s \<and> s \<noteq> []"
proof (cases "phrase_loop (sections e) (str_lower e query) prioritized_phrases")
  case None
  from answer_body_miss(2) [OF this] answer_for_key_nonempty [OF assms] error_message_nonempty
  show ?thesis
    by (auto split: sum.split)
next
  case (Some a)
  from phrase_loop_ran [OF Some] assms have "a \<noteq> []"
    by auto
  with answer_body_hit [OF Some] show ?thesis
    by simp
qed

theorem answer_nonempty_for_nonempty_sections_witness:
  "\<exists>s. answer_question_nlp demo_env (u ''asdkjasd'') = Inr s \<and> s \<noteq> []"
proof -
  have "\<forall>k a. sections demo_env k = Some a \<longrightarrow> a \<noteq> []"
    by (simp add: demo_env_def u_def)
  from answer_nonempty_for_nonempty_sections [OF this] show ?thesis .
qed

text \<open>
  Claim C9 as stated fails: an answer text of \<^verbatim>\<open>sections\<close> is returned as it is, so with the
  table \<^verbatim>\<open>{"language culture": ""}\<close> the query below gets the empty string.
\<close>

theorem empty_section_text_counterexample:
  "sections (demo_env\<lparr>sections := map_of [(u ''language culture'', [])]\<rparr>) (u ''language culture'')
     = Some []
   \<and> answer_question_nlp (demo_env\<lparr>sections := map_of [(u ''language culture'', [])]\<rparr>)
        (u ''language culture'') = Inr []"
  by (simp add: answer_question_nlp_def answer_body_def try_except_def phrase_defs demo_env_def
      string_defs)

subsection \<open>The order of the rules in match_with_synonyms\<close>

lemma term_loop_list_ex: "term_loop c ts = list_ex (\<lambda>term. str_in term c) ts"
  by (induction ts) auto

lemma find_append_case:
  "find P (xs @ ys) = (case find P xs of None \<Rightarrow> find P ys | Some x \<Rightarrow> Some x)"
  by (induction xs) auto

lemma lower_each_strings: "lower_each e (map JStr l) = Inr (map (str_lower e) l)"
  by (induction l) auto

lemma search_terms_json_synonyms:
  "search_terms e (json_synonyms syns) key
     = Inr (str_lower e key # map (str_lower e) (case syns key of None \<Rightarrow> [] | Some l \<Rightarrow> l))"
  by (simp add: search_terms_def json_synonyms_def lower_each_strings split: option.split)

lemma citizenship_loop_find:
  "citizenship_loop e c cit =
     map_option snd
       (find (spec_rule_fires c) (map (\<lambda>(subtopic, key). ([str_lower e subtopic], key)) cit))"
  by (induction cit) (auto simp: spec_rule_fires_def)

lemma qa_loop_find:
  "qa_loop e (json_synonyms syns) c qa =
     Inr (map_option snd
       (find (spec_rule_fires c)
          (map (\<lambda>(key, v).
                  (str_lower e key # map (str_lower e) (case syns key of None \<Rightarrow> [] | Some l \<Rightarrow> l),
                   key)) qa)))"
  by (induction qa)
    (auto simp: spec_rule_fires_def term_loop_list_ex search_terms_json_synonyms)

lemma match_corrected_spec:
  "match_corrected e c qa (json_synonyms syns) cit
     = Inr (spec_first_match c (spec_matcher_rules e qa syns cit))"
  by (simp add: match_corrected_def spec_first_match_def spec_matcher_rules_def
      find_append_case citizenship_loop_find qa_loop_find spec_rule_fires_def
      split: option.split)

text \<open>
  Claim C2. On every corrected text, and for every synonym table of the data model, what
  \<open>match_with_synonyms\<close> computes after the correction is the key of the first rule that
  fires in the list of the specification: the citizenship subtopics in the order of
  \<^verbatim>\<open>citizenship_mapping\<close>, then \<^verbatim>\<open>citizenship\<close>, then the question-keys with their synonyms
  in the order of \<^verbatim>\<open>qa_mapping\<close>; it is \<^verbatim>\<open>None\<close> when no rule fires. \<open>match_with_synonyms\<close>
  returns this for the text it gets from \<open>preprocess_query\<close> and \<open>correct_spelling\<close>.
\<close>

theorem matcher_first_rule_wins:
  "match_corrected e corrected_query qa (json_synonyms syns) cit
     = Inr (spec_first_match corrected_query (spec_matcher_rules e qa syns cit))
   \<and> (\<exists>p c. preprocess_query e query = Inr p \<and> correct_spelling e p = Inr c
          \<and> match_with_synonyms e query qa (json_synonyms syns) cit
              = Inr (spec_first_match c (spec_matcher_rules e qa syns cit)))"
  using match_with_synonyms_returns [of e query qa "json_synonyms syns" cit]
  by (simp add: match_corrected_spec)

text \<open>
  On the concrete instance: a subtopic wins over \<^verbatim>\<open>citizenship\<close>, \<^verbatim>\<open>citizenship\<close> wins over
  a question-key, the first question-key wins over the second (here through its synonym),
  and a text that no rule matches gives \<^verbatim>\<open>None\<close>.
\<close>

theorem matcher_first_rule_wins_witness:
  "match_corrected demo_env (u ''citizenship by birth parliament'') (qa_mapping demo_env)
       (json_synonyms (map_of [(u ''parliament'', [u ''Senate''])])) (citizenship_mapping demo_env)
     = Inr (Some (u ''birth section''))
   \<and> match_corrected demo_env (u ''citizenship parliament'') (qa_mapping demo_env)
       (json_synonyms (map_of [(u ''parliament'', [u ''Senate''])])) (citizenship_mapping demo_env)
     = Inr (Some (u ''citizenship''))
   \<and> match_corrected demo_env (u ''land senate'') (qa_mapping demo_env)
       (json_synonyms (map_of [(u ''parliament'', [u ''Senate''])])) (citizenship_mapping demo_env)
     = Inr (Some (u ''parliament''))
   \<and> match_corrected demo_env (u ''asdkjasd'') (qa_mapping demo_env)
       (json_synonyms (map_of [(u ''parliament'', [u ''Senate''])])) (citizenship_mapping demo_env)
     = Inr None"
proof -
  let ?syns = "map_of [(u ''parliament'', [u ''Senate''])]"
  let ?rules = "spec_matcher_rules demo_env (qa_mapping demo_env) ?syns (citizenship_mapping demo_env)"
  have rules: "?rules =
      [([u ''by birth''], u ''birth section''), ([u ''dual''], u ''dual section''),
       ([u ''citizenship''], u ''citizenship''),
       ([u ''parliament'', u ''senate''], u ''parliament''), ([u ''land''], u ''land'')]"
    by (simp add: spec_matcher_rules_def demo_env_def string_defs)
  have m1: "spec_first_match (u ''citizenship by birth parliament'') ?rules
              = Some (u ''birth section'')"
    unfolding rules by (simp add: spec_first_match_def spec_rule_fires_def string_defs)
  have m2: "spec_first_match (u ''citizenship parliament'') ?rules = Some (u ''citizenship'')"
    unfolding rules by (simp add: spec_first_match_def spec_rule_fires_def string_defs)
  have m3: "spec_first_match (u ''land senate'') ?rules = Some (u ''parliament'')"
    unfolding rules by (simp add: spec_first_match_def spec_rule_fires_def string_defs)
  have m4: "spec_first_match (u ''asdkjasd'') ?rules = None"
    unfolding rules by (simp add: spec_first_match_def spec_rule_fires_def string_defs)
  show ?thesis
    using matcher_first_rule_wins [of demo_env "u ''citizenship by birth parliament''"
        "qa_mapping demo_env" ?syns "citizenship_mapping demo_env"]
      matcher_first_rule_wins [of demo_env "u ''citizenship parliament''"
        "qa_mapping demo_env" ?syns "citizenship_mapping demo_env"]
      matcher_first_rule_wins [of demo_env "u ''land senate''"
        "qa_mapping demo_env" ?syns "citizenship_mapping demo_env"]
      matcher_first_rule_wins [of demo_env "u ''asdkjasd''"
        "qa_mapping demo_env" ?syns "citizenship_mapping demo_env"]
      m1 m2 m3 m4
    by simp
qed

subsection \<open>The general citizenship answer\<close>

lemma str_join_contains:
  "x \<in> set xs \<Longrightarrow> \<exists>ps ss. str_join sep xs = ps @ x @ ss"
proof (induction sep xs rule: str_join.induct)
  case (1 sep)
  then show ?case by simp
next
  case (2 sep y)
  then have "str_join sep [y] = [] @ x @ []" by simp
  then show ?case by blast
next
  case (3 sep y z zs)
  show ?case
  proof (cases "x = y")
    case True
    then have "str_join sep (y # z # zs) = [] @ x @ (sep @ str_join sep (z # zs))" by simp
    then show ?thesis by blast
  next
    case False
    with 3 obtain ps ss where "str_join sep (z # zs) = ps @ x @ ss" by auto
    then have "str_join sep (y # z # zs) = (y @ sep @ ps) @ x @ ss" by simp
    then show ?thesis by blast
  qed
qed

lemma citizenship_message_lists_label:
  assumes "label \<in> set (map fst (citizenship_mapping e))"
  shows "str_in (str_repr e label) (citizenship_message e)"
proof -
  from assms have "str_repr e label \<in> set (map (str_repr e) (map fst (citizenship_mapping e)))"
    by auto
  from str_join_contains [OF this]
  obtain ps ss where
    "str_join (u '', '') (map (str_repr e) (map fst (citizenship_mapping e)))
       = ps @ str_repr e label @ ss"
    by blast
  then have "\<exists>ps' ss'. citizenship_message e = ps' @ str_repr e label @ ss'"
    unfolding citizenship_message_def list_str_def
    by (metis append.assoc)
  then show ?thesis
    by (simp add: str_in_iff)
qed

lemma citizenship_loop_None:
  "\<forall>(subtopic, key)\<in>set cit. \<not> str_in (str_lower e subtopic) c \<Longrightarrow>
     citizenship_loop e c cit = None"
  by (induction cit) auto

text \<open>
  Claim C3, amended. Let the corrected text of a query contain \<^verbatim>\<open>citizenship\<close> and no
  lowercased subtopic of \<^verbatim>\<open>citizenship_mapping\<close>, let the terms of no item of
  \<^verbatim>\<open>prioritized_phrases\<close> all occur in the lowercased query, and let \<^verbatim>\<open>citizenship\<close> be no
  key of \<^verbatim>\<open>sections\<close>. Then the answer is the generated message, and the message contains
  the \<^verbatim>\<open>repr\<close> of every subtopic label of \<^verbatim>\<open>citizenship_mapping\<close>.
\<close>

theorem general_citizenship_lists_subtopics:
  assumes "preprocess_query e query = Inr p"
    and "correct_spelling e p = Inr c"
    and "str_in (u ''citizenship'') c"
    and "\<forall>(subtopic, key)\<in>set (citizenship_mapping e). \<not> str_in (str_lower e subtopic) c"
    and "\<forall>rule\<in>set prioritized_phrases. \<not> rule_satisfied (str_lower e query) rule"
    and "sections e (u ''citizenship'') = None"
  shows "answer_question_nlp e query = Inr (citizenship_message e)
         \<and> (\<forall>label\<in>set (map fst (citizenship_mapping e)).
               str_in (str_repr e label) (citizenship_message e))"
proof -
  have "phrase_loop (sections e) (str_lower e query) prioritized_phrases = None"
    using assms(5) by (simp add: phrase_loop_None_iff)
  from answer_body_miss(2) [OF this]
  have "answer_question_nlp e query =
          Inr (case match_with_synonyms e query (qa_mapping e) (synonyms e)
                      (citizenship_mapping e) of
                 Inl x \<Rightarrow> error_message
               | Inr section_key \<Rightarrow> answer_for_key e section_key)" .
  moreover have "match_corrected e c (qa_mapping e) (synonyms e) (citizenship_mapping e)
                   = Inr (Some (u ''citizenship''))"
    using assms(3) citizenship_loop_None [OF assms(4)] by (simp add: match_corrected_def)
  then have "match_with_synonyms e query (qa_mapping e) (synonyms e) (citizenship_mapping e)
               = Inr (Some (u ''citizenship''))"
    using assms(1,2) by (simp add: match_with_synonyms_def)
  ultimately have "answer_question_nlp e query = Inr (citizenship_message e)"
    using assms(6) by (simp add: answer_for_key_def)
  then show ?thesis
    using citizenship_message_lists_label by blast
qed

lemma demo_preprocess_citizenship:
  "preprocess_query demo_env (u ''what is citizenship'') = Inr (u ''citizenship'')"
  by (simp add: stage_defs demo_defs string_defs)

lemma demo_correct_citizenship:
  "correct_spelling demo_env (u ''citizenship'') = Inr (u ''citizenship'')"
  by (simp add: stage_defs demo_defs string_defs)

theorem general_citizenship_lists_subtopics_witness:
  "answer_question_nlp demo_env (u ''what is citizenship'') = Inr (citizenship_message demo_env)
   \<and> str_in (str_repr demo_env (u ''By Birth'')) (citizenship_message demo_env)
   \<and> str_in (str_repr demo_env (u ''dual'')) (citizenship_message demo_env)
   \<and> citizenship_message demo_env
       = u ''It seems you're interested in citizenship. Available subtopics include: ['By Birth', 'dual'].''"
proof -
  have h3: "str_in (u ''citizenship'') (u ''citizenship'')"
    by (simp add: string_defs)
  have h4: "\<forall>(subtopic, key)\<in>set (citizenship_mapping demo_env).
              \<not> str_in (str_lower demo_env subtopic) (u ''citizenship'')"
    by (simp add: demo_env_def string_defs)
  have h5: "\<forall>rule\<in>set prioritized_phrases.
              \<not> rule_satisfied (str_lower demo_env (u ''what is citizenship'')) rule"
    by (simp add: phrase_defs demo_env_def string_defs)
  have h6: "sections demo_env (u ''citizenship'') = None"
    by (simp add: demo_env_def string_defs)
  have m: "citizenship_message demo_env
       = u ''It seems you're interested in citizenship. Available subtopics include: ['By Birth', 'dual'].''"
    by (simp add: citizenship_message_def list_str_def demo_env_def string_defs)
  have l: "map fst (citizenship_mapping demo_env) = [u ''By Birth'', u ''dual'']"
    by (simp add: demo_env_def)
  show ?thesis
    using general_citizenship_lists_subtopics
      [OF demo_preprocess_citizenship demo_correct_citizenship h3 h4 h5 h6] m l
    by simp
qed

text \<open>
  Claim C3 as stated fails: the key \<^verbatim>\<open>citizenship\<close> is looked up in \<^verbatim>\<open>sections\<close> before it is
  compared with the sentinel, so with a section of that name the answer is the section's
  text, which lists no subtopic.
\<close>

theorem citizenship_section_counterexample:
  "preprocess_query (demo_env\<lparr>sections := map_of [(u ''citizenship'', u ''Chapter Three.'')]\<rparr>)
     (u ''what is citizenship'') = Inr (u ''citizenship'')
   \<and> correct_spelling (demo_env\<lparr>sections := map_of [(u ''citizenship'', u ''Chapter Three.'')]\<rparr>)
       (u ''citizenship'') = Inr (u ''citizenship'')
   \<and> str_in (u ''citizenship'') (u ''citizenship'')
   \<and> citizenship_mapping (demo_env\<lparr>sections := map_of [(u ''citizenship'', u ''Chapter Three.'')]\<rparr>)
       = [(u ''By Birth'', u ''birth section''), (u ''dual'', u ''dual section'')]
   \<and> \<not> str_in (u ''By Birth'') (u ''citizenship'')
   \<and> \<not> str_in (u ''by birth'') (u ''citizenship'')
   \<and> \<not> str_in (u ''dual'') (u ''citizenship'')
   \<and> \<not> list_ex (rule_satisfied (ascii_lower (u ''what is citizenship''))) prioritized_phrases
   \<and> answer_question_nlp (demo_env\<lparr>sections := map_of [(u ''citizenship'', u ''Chapter Three.'')]\<rparr>)
       (u ''what is citizenship'') = Inr (u ''Chapter Three.'')
   \<and> \<not> str_in (quote_repr (u ''dual'')) (u ''Chapter Three.'')"
  by (simp add: answer_question_nlp_def answer_body_def answer_for_key_def stage_defs phrase_defs
      demo_defs string_defs)

subsection \<open>correct_spelling on a sequence of tokens\<close>

lemma u_space: "u '' '' = [32]"
  by (simp add: u_def)

lemma split_from_word:
  "\<not> list_ex py_isspace w \<Longrightarrow> split_from cur (w @ rest) = split_from (cur @ w) rest"
  by (induction w arbitrary: cur) auto

lemma split_from_join:
  "\<forall>t\<in>set ts. t \<noteq> [] \<and> \<not> list_ex py_isspace t \<Longrightarrow> split_from [] (str_join [32] ts) = ts"
proof (induction ts)
  case Nil
  then show ?case by simp
next
  case (Cons t ts)
  then have t: "t \<noteq> []" "\<not> list_ex py_isspace t" by auto
  show ?case
  proof (cases ts)
    case Nil
    have "split_from [] (t @ []) = split_from ([] @ t) []"
      using t(2) by (rule split_from_word)
    with Nil t(1) show ?thesis by simp
  next
    case (Cons t' ts')
    have "split_from [] (t @ (32 # str_join [32] ts)) = split_from ([] @ t) (32 # str_join [32] ts)"
      using t(2) by (rule split_from_word)
    also have "\<dots> = t # split_from [] (str_join [32] ts)"
      using t(1) by (simp add: py_isspace_def)
    also have "\<dots> = t # ts"
      using Cons.IH Cons.prems by simp
    finally show ?thesis
      using Cons by simp
  qed
qed

lemma str_split_join:
  "\<forall>t\<in>set ts. t \<noteq> [] \<and> \<not> list_ex py_isspace t \<Longrightarrow> str_split (str_join (u '' '') ts) = ts"
  by (simp add: str_split_def u_space split_from_join)

lemma corrected_list_all:
  "\<forall>w\<in>set ws. w \<in> M \<longrightarrow> (\<exists>c. spell_correction e w = Inr (Some c)) \<Longrightarrow>
     corrected_list e M ws = Inr (map (\<lambda>w. Some (if w \<in> M then best_correction e w else w)) ws)"
  by (induction ws) (auto simp: best_correction_def)

lemma those_map_Some: "those (map (\<lambda>w. Some (f w)) ws) = Some (map f ws)"
  by (induction ws) auto

text \<open>
  When \<^verbatim>\<open>spell.correction\<close> returns a word for every token that \<^verbatim>\<open>spell.unknown\<close> reports,
  the result is the tokens joined by single spaces, each reported token replaced by its
  correction and every other token unchanged.
\<close>

lemma correct_spelling_all_correctable:
  assumes "\<forall>t\<in>set ts. t \<noteq> [] \<and> \<not> list_ex py_isspace t"
    and "spell_unknown e ts = Inr M"
    and "\<forall>t\<in>set ts. t \<in> M \<longrightarrow> (\<exists>c. spell_correction e t = Inr (Some c))"
  shows "correct_spelling e (str_join (u '' '') ts)
           = Inr (str_join (u '' '') (map (\<lambda>t. if t \<in> M then best_correction e t else t) ts))"
  using corrected_list_all [OF assms(3)] assms(1,2)
  by (simp add: correct_spelling_def str_split_join try_except_def join_corrected_def
      those_map_Some)

text \<open>
  Claim C5. The claim fails on the code at the tokens \<^verbatim>\<open>helo zzzz\<close>, both unknown, where
  \<^verbatim>\<open>spell.correction\<close> returns \<^verbatim>\<open>hello\<close> for the first and \<^verbatim>\<open>None\<close> for the second: the
  comprehension gives \<^verbatim>\<open>['hello', None]\<close>, \<^verbatim>\<open>" ".join\<close> raises a \<^verbatim>\<open>TypeError\<close>, and the handler
  returns the input. So \<^verbatim>\<open>helo\<close>, which has a best correction, is not replaced by it.
\<close>

theorem correct_spelling_loses_correction:
  "str_split (u ''helo zzzz'') = [u ''helo'', u ''zzzz'']
   \<and> spell_unknown demo_env [u ''helo'', u ''zzzz''] = Inr {u ''helo'', u ''zzzz''}
   \<and> spell_correction demo_env (u ''helo'') = Inr (Some (u ''hello''))
   \<and> spell_correction demo_env (u ''zzzz'') = Inr None
   \<and> corrected_list demo_env {u ''helo'', u ''zzzz''} [u ''helo'', u ''zzzz'']
       = Inr [Some (u ''hello''), None]
   \<and> join_corrected [Some (u ''hello''), None] = Inl TypeError
   \<and> correct_spelling demo_env (u ''helo zzzz'') = Inr (u ''helo zzzz'')
   \<and> u ''helo zzzz'' \<noteq> u ''hello zzzz''"
  by (simp add: stage_defs demo_defs string_defs)

subsection \<open>preprocess_query on a normalized string\<close>





end
